theory Spec2Isabelle
  imports Complex_Main
begin

section \<open>Data model\<close>

text \<open>
  The program is NumPy code. An 8-bit plane (a two-dimensional \<^verbatim>\<open>uint8\<close> array) is a list
  of rows of naturals, a floating-point plane a list of rows of reals, and a raster
  (H x W x 3, or x 4 with alpha) a list of rows of pixels, each pixel the list of its
  samples. Floating-point arithmetic (\<^verbatim>\<open>float32\<close>, \<^verbatim>\<open>float64\<close>) is idealised as exact
  real arithmetic: rounding errors of the order of one unit in the last place are not
  part of the model, and neither are the IEEE infinities and NaN (HOL's \<open>x / 0\<close> is \<open>0\<close>).
\<close>

type_synonym plane = "nat list list"
type_synonym fplane = "real list list"
type_synonym raster = "nat list list list"

definition height :: "'a list list \<Rightarrow> nat" where
  "height p = length p"

definition width :: "'a list list \<Rightarrow> nat" where
  "width p = (case p of [] \<Rightarrow> 0 | r # _ \<Rightarrow> length r)"

definition is_plane :: "nat \<Rightarrow> nat \<Rightarrow> 'a list list \<Rightarrow> bool" where
  "is_plane h w p = (length p = h \<and> list_all (\<lambda>r. length r = w) p)"

text \<open>
  \<^verbatim>\<open>rgb.shape[2]\<close>, the number of samples of a pixel. A well-formed raster of height
  \<open>h\<close> and width \<open>w\<close> is rectangular, all its pixels have that same number of samples,
  3 or 4, and every sample is an 8-bit value.
\<close>

definition depth :: "raster \<Rightarrow> nat" where
  "depth rgb = (case concat rgb of [] \<Rightarrow> 0 | px # _ \<Rightarrow> length px)"

definition is_raster :: "nat \<Rightarrow> nat \<Rightarrow> raster \<Rightarrow> bool" where
  "is_raster h w rgb =
     (is_plane h w rgb \<and>
      list_all (list_all (\<lambda>px. length px = depth rgb \<and> (length px = 3 \<or> length px = 4)
                                \<and> list_all (\<lambda>v. v \<le> 255) px)) rgb)"

text \<open>
  \<^verbatim>\<open>x.astype(np.uint8)\<close> on a float: truncation towards zero, then reduction modulo 256
  (what the usual conversion through a machine integer does outside 0..255).
\<close>

definition astype_uint8 :: "real \<Rightarrow> nat" where
  "astype_uint8 x = nat ((if x < 0 then \<lceil>x\<rceil> else \<lfloor>x\<rfloor>) mod 256)"

definition clip :: "real \<Rightarrow> real \<Rightarrow> real \<Rightarrow> real" where
  "clip lo hi x = min hi (max lo x)"

text \<open>
  Exceptions are values: \<open>ZeroDivisionError\<close> and \<open>KeyError\<close> are Python's own,
  \<open>TypingError\<close> is the error of the Numba compiler, and \<open>Raised e\<close> is an exception
  \<open>e\<close> raised by a collaborator (the progress callback or the OpenCV edge detector).
  A function that may raise returns a sum, \<open>Inl\<close> the exception; \<open>then_do\<close> runs the
  next statement when the previous one returned.
\<close>

datatype 'e exn = ZeroDivisionError | KeyError string | TypingError | Raised 'e

definition then_do :: "'e + 'a \<Rightarrow> ('a \<Rightarrow> 'e + 'b) \<Rightarrow> 'e + 'b" where
  "then_do r f = (case r of Inl e \<Rightarrow> Inl e | Inr v \<Rightarrow> f v)"

section \<open>HalftoneAlgorithms\<close>

subsection \<open>bayer_matrix\<close>

text \<open>
  \<open>bayer_matrix_py\<close> is the body of the function as Python evaluates it. The function
  itself is decorated \<^verbatim>\<open>@jit(nopython=True, parallel=True)\<close>, and is \<open>bayer_matrix\<close>
  further down.
\<close>

definition base_matrix :: fplane where
  "base_matrix = [[0, 2], [3, 1]]"

definition quadrant :: "fplane \<Rightarrow> nat \<Rightarrow> nat \<Rightarrow> nat \<Rightarrow> fplane" where
  "quadrant matrix n i j = map (map (\<lambda>v. v + real ((i * 2 + j) * (n * n div 4)))) matrix"

text \<open>
  One pass of the \<^verbatim>\<open>while\<close> body after \<^verbatim>\<open>n *= 2\<close>: the four quadrants of the new
  \<open>n x n\<close> matrix are the old matrix plus \<open>(i * 2 + j) * (n * n // 4)\<close>.
\<close>

definition new_matrix :: "fplane \<Rightarrow> nat \<Rightarrow> fplane" where
  "new_matrix matrix n =
     map2 (@) (quadrant matrix n 0 0) (quadrant matrix n 0 1) @
     map2 (@) (quadrant matrix n 1 0) (quadrant matrix n 1 1)"

text \<open>
  \<^verbatim>\<open>while n < size: n *= 2; ...\<close>. The loop variable starts at 2; the case \<open>n = 0\<close>
  cannot be reached and only makes the recursion well-founded. The source's parameter
  \<^verbatim>\<open>size\<close> is written \<open>sz\<close> (\<open>size\<close> is a constant of HOL).
\<close>

function bayer_loop :: "int \<Rightarrow> nat \<Rightarrow> fplane \<Rightarrow> fplane" where
  "bayer_loop sz n matrix =
     (if n \<noteq> 0 \<and> int n < sz then bayer_loop sz (n * 2) (new_matrix matrix (n * 2))
      else matrix)"
  by pat_completeness auto
termination
  by (relation "measure (\<lambda>(sz, n, matrix). nat (sz - int n))") auto

declare bayer_loop.simps [simp del]

definition bayer_matrix_py :: "int \<Rightarrow> fplane" where
  "bayer_matrix_py sz =
     (if sz = 2 then map (map (\<lambda>v. v / 4)) base_matrix
      else map (map (\<lambda>v. v / real_of_int (sz * sz))) (bayer_loop sz 2 base_matrix))"

text \<open>
  The decorator \<^verbatim>\<open>@jit(nopython=True, parallel=True)\<close>. At the first call Numba infers
  the types of the body, before any of it runs, and a compiled function has one return
  type: the types of all its \<^verbatim>\<open>return\<close> statements must unify, and two arrays unify only
  when their element types are equal. The body has two \<^verbatim>\<open>return\<close> statements:
  \<^verbatim>\<open>np.array(..., dtype=np.float32) / 4.0\<close>, a \<^verbatim>\<open>float32\<close> array divided by a \<^verbatim>\<open>float64\<close>
  scalar, which Numba types as a \<^verbatim>\<open>float64\<close> array, and \<^verbatim>\<open>matrix / (size * size)\<close>,
  a \<^verbatim>\<open>float32\<close> array divided by an \<^verbatim>\<open>int64\<close> scalar, which it types as a \<^verbatim>\<open>float32\<close>
  array. When the return types do not unify the call raises \<^verbatim>\<open>TypingError\<close>, whatever
  the argument; otherwise the compiled body runs.
\<close>

datatype dtype = float32 | float64 | int64

definition array_divide_type :: "dtype \<Rightarrow> dtype \<Rightarrow> dtype" where
  "array_divide_type elem scalar =
     (if elem = float64 \<or> scalar = float64 then float64
      else if elem = float32 then float32 else float64)"

definition unify_returns :: "dtype list \<Rightarrow> dtype option" where
  "unify_returns ts =
     (case ts of [] \<Rightarrow> None
      | t # rest \<Rightarrow> if list_all (\<lambda>u. u = t) rest then Some t else None)"

definition bayer_matrix_returns :: "dtype list" where
  "bayer_matrix_returns = [array_divide_type float32 float64, array_divide_type float32 int64]"

definition bayer_matrix :: "int \<Rightarrow> 'e exn + fplane" where
  "bayer_matrix sz =
     (case unify_returns bayer_matrix_returns of
        None \<Rightarrow> Inl TypingError
      | Some t \<Rightarrow> Inr (bayer_matrix_py sz))"

subsection \<open>ordered_dither\<close>

text \<open>
  Modelled from the spec: \<^verbatim>\<open>scipy.ndimage.rotate(result, angle, reshape=False, order=1)\<close>
  is a library routine outside the repository. The spec says it rotates the thresholded
  plane by the angle, preserving the image bounds, using interpolation. The model is the
  library's documented behaviour in exact arithmetic: the output sample at \<open>(i, j)\<close> is
  the input sampled at \<open>R (o - centre) + centre\<close> with \<open>R = [[c, s], [-s, c]]\<close>, by
  bilinear interpolation (order 1); a coordinate outside the input's extent gives the
  constant 0 (mode \<^verbatim>\<open>constant\<close>, \<^verbatim>\<open>cval = 0\<close>).
\<close>

definition pix :: "fplane \<Rightarrow> int \<Rightarrow> int \<Rightarrow> real" where
  "pix img i j =
     (if 0 \<le> i \<and> i < int (length img) \<and> 0 \<le> j \<and> j < int (length (img ! nat i))
      then img ! nat i ! nat j else 0)"

definition bilinear :: "fplane \<Rightarrow> nat \<Rightarrow> nat \<Rightarrow> real \<Rightarrow> real \<Rightarrow> real" where
  "bilinear img h w y x =
     (if y < 0 \<or> real h - 1 < y \<or> x < 0 \<or> real w - 1 < x then 0
      else (1 - frac y) * (1 - frac x) * pix img \<lfloor>y\<rfloor> \<lfloor>x\<rfloor>
         + (1 - frac y) * frac x * pix img \<lfloor>y\<rfloor> (\<lfloor>x\<rfloor> + 1)
         + frac y * (1 - frac x) * pix img (\<lfloor>y\<rfloor> + 1) \<lfloor>x\<rfloor>
         + frac y * frac x * pix img (\<lfloor>y\<rfloor> + 1) (\<lfloor>x\<rfloor> + 1))"

definition rotate_sample :: "fplane \<Rightarrow> real \<Rightarrow> nat \<Rightarrow> nat \<Rightarrow> real" where
  "rotate_sample img angle i j =
     (let h = height img; w = width img;
          c = cos (angle * pi / 180); s = sin (angle * pi / 180);
          cy = (real h - 1) / 2; cx = (real w - 1) / 2
      in bilinear img h w
           (c * (real i - cy) + s * (real j - cx) + cy)
           (- s * (real i - cy) + c * (real j - cx) + cx))"

definition ndimage_rotate :: "fplane \<Rightarrow> real \<Rightarrow> fplane" where
  "ndimage_rotate img angle =
     map (\<lambda>i. map (\<lambda>j. rotate_sample img angle i j) [0..<width img]) [0..<height img]"

definition normalize :: "plane \<Rightarrow> fplane" where
  "normalize channel = map (map (\<lambda>v. real v / 255)) channel"

text \<open>\<^verbatim>\<open>np.tile(m, (th, tw))[:h, :w]\<close>\<close>

definition tile :: "'a list list \<Rightarrow> nat \<Rightarrow> nat \<Rightarrow> 'a list list" where
  "tile m th tw = concat (replicate th (map (\<lambda>r. concat (replicate tw r)) m))"

definition crop :: "'a list list \<Rightarrow> nat \<Rightarrow> nat \<Rightarrow> 'a list list" where
  "crop m h w = take h (map (take w) m)"

definition threshold :: "fplane \<Rightarrow> fplane \<Rightarrow> fplane" where
  "threshold normalized tiled =
     map2 (\<lambda>nr tr. map2 (\<lambda>n t. if t < n then 1 else 0) nr tr) normalized tiled"


definition default_angle :: real where
  "default_angle = 45"

text \<open>
  \<^verbatim>\<open>ordered_dither\<close> first calls \<^verbatim>\<open>HalftoneAlgorithms.bayer_matrix(matrix_size)\<close>, which
  may raise. \<open>dither_result\<close> is the part of the body from there up to
  \<^verbatim>\<open>result = (normalized > tiled_matrix)\<close>, and \<open>dither_body\<close> all of the body after the
  call, for the threshold matrix the call returned.
\<close>

definition dither_result :: "plane \<Rightarrow> fplane \<Rightarrow> fplane" where
  "dither_result channel threshold_matrix =
     (let h = height channel; w = width channel;
          tm_h = height threshold_matrix; tm_w = width threshold_matrix;
          normalized = normalize channel;
          tiles_h = (h + tm_h - 1) div tm_h;
          tiles_w = (w + tm_w - 1) div tm_w;
          tiled_matrix = crop (tile threshold_matrix tiles_h tiles_w) h w
      in threshold normalized tiled_matrix)"

definition scale_uint8 :: "fplane \<Rightarrow> plane" where
  "scale_uint8 result = map (map (\<lambda>v. astype_uint8 (v * 255))) result"

definition dither_body :: "plane \<Rightarrow> fplane \<Rightarrow> real \<Rightarrow> plane" where
  "dither_body channel threshold_matrix angle =
     (let result = dither_result channel threshold_matrix;
          result = (if angle \<noteq> 0 then ndimage_rotate result angle else result)
      in scale_uint8 result)"

definition ordered_dither :: "plane \<Rightarrow> int \<Rightarrow> real \<Rightarrow> 'e exn + plane" where
  "ordered_dither channel matrix_size angle =
     then_do (bayer_matrix matrix_size) (\<lambda>threshold_matrix.
       Inr (dither_body channel threshold_matrix angle))"

subsection \<open>floyd_steinberg\<close>

text \<open>
  The working array \<^verbatim>\<open>output\<close> is mutated in place: \<^verbatim>\<open>output[y, x] = v\<close> is \<open>set2\<close> and
  \<^verbatim>\<open>output[y, x] += d\<close> is \<open>add2\<close>. One pass of the inner loop body is \<open>fs_pixel\<close>; the
  two \<^verbatim>\<open>for\<close> loops are folds over \<open>[0..<h]\<close> and \<open>[0..<w]\<close>. The function is
  decorated \<^verbatim>\<open>@jit(nopython=True)\<close> too; it has a single \<^verbatim>\<open>return\<close> statement, so there
  is no return type to unify and the compiled body runs.
\<close>

definition set2 :: "'a list list \<Rightarrow> nat \<Rightarrow> nat \<Rightarrow> 'a \<Rightarrow> 'a list list" where
  "set2 a y x v = a[y := (a ! y)[x := v]]"

definition add2 :: "fplane \<Rightarrow> nat \<Rightarrow> nat \<Rightarrow> real \<Rightarrow> fplane" where
  "add2 a y x d = set2 a y x (a ! y ! x + d)"

definition fs_pixel :: "nat \<Rightarrow> nat \<Rightarrow> nat \<Rightarrow> nat \<Rightarrow> fplane \<Rightarrow> fplane" where
  "fs_pixel h w y x output =
     (let old_pixel = output ! y ! x;
          new_pixel = (if 127.5 < old_pixel then 255 else 0);
          output = set2 output y x new_pixel;
          err = old_pixel - new_pixel;
          output = (if x + 1 < w then add2 output y (x + 1) (err * 7 / 16) else output)
      in if y + 1 < h
         then (let output = (if 0 < x then add2 output (y + 1) (x - 1) (err * 3 / 16)
                             else output);
                   output = add2 output (y + 1) x (err * 5 / 16)
               in if x + 1 < w then add2 output (y + 1) (x + 1) (err * 1 / 16) else output)
         else output)"

definition floyd_steinberg :: "plane \<Rightarrow> plane" where
  "floyd_steinberg channel =
     (let h = height channel; w = width channel;
          output = map (map real) channel;
          output = fold (\<lambda>y out. fold (\<lambda>x out. fs_pixel h w y x out) [0..<w] out) [0..<h] output
      in map (map (\<lambda>v. astype_uint8 (clip 0 255 v))) output)"

subsection \<open>hybrid_halftone\<close>

text \<open>
  Boolean-mask indexing. \<^verbatim>\<open>a[mask]\<close> is the one-dimensional array of the samples of
  \<open>a\<close> at the true positions of \<open>mask\<close>, in row-major order (\<open>masked_values\<close>);
  \<^verbatim>\<open>out[mask] = vals\<close> writes the \<open>k\<close>-th value at the \<open>k\<close>-th true position
  (\<open>masked_assign\<close>; \<open>count_before mask i j\<close> is the number of true positions before
  \<open>(i, j)\<close>). In the source the number of values always equals the number of true
  positions.
\<close>

definition mask_or :: "bool list list \<Rightarrow> bool list list \<Rightarrow> bool list list" where
  "mask_or a b = map2 (\<lambda>ar br. map2 (\<lambda>x y. x \<or> y) ar br) a b"

definition mask_not :: "bool list list \<Rightarrow> bool list list" where
  "mask_not a = map (map Not) a"

definition any_mask :: "bool list list \<Rightarrow> bool" where
  "any_mask a = list_ex (list_ex id) a"

definition masked_values :: "bool list list \<Rightarrow> 'a list list \<Rightarrow> 'a list" where
  "masked_values msk a = map snd (filter fst (zip (concat msk) (concat a)))"

definition count_before :: "bool list list \<Rightarrow> nat \<Rightarrow> nat \<Rightarrow> nat" where
  "count_before msk i j = length (filter id (concat (take i msk) @ take j (msk ! i)))"

definition masked_assign :: "bool list list \<Rightarrow> 'a list list \<Rightarrow> 'a list \<Rightarrow> 'a list list" where
  "masked_assign msk out vals =
     map (\<lambda>i. map (\<lambda>j. if msk ! i ! j then vals ! count_before msk i j else out ! i ! j)
                [0..<length (out ! i)])
         [0..<length out]"

definition hybrid_halftone :: "plane \<Rightarrow> real \<Rightarrow> real \<Rightarrow> 'e exn + plane" where
  "hybrid_halftone channel highlight_threshold shadow_threshold =
     (let normalized = normalize channel;
          highlight_mask = map (map (\<lambda>v. v < highlight_threshold)) normalized;
          shadow_mask = map (map (\<lambda>v. shadow_threshold < v)) normalized;
          fm_mask = mask_or highlight_mask shadow_mask;
          midtone_mask = mask_not fm_mask;
          output = map (map (\<lambda>v. 0)) channel;
          output = (if any_mask fm_mask
                    then (let fm_result = floyd_steinberg channel
                          in masked_assign fm_mask output (masked_values fm_mask fm_result))
                    else output)
      in if any_mask midtone_mask
         then then_do (ordered_dither
                         (map (\<lambda>v. [v]) (masked_values midtone_mask channel))
                         8 default_angle) (\<lambda>am_result.
                Inr (masked_assign midtone_mask output (concat am_result)))
         else Inr output)"

section \<open>DTFConfig\<close>

text \<open>
  The configuration dataclass. \<^verbatim>\<open>angles\<close> is a dictionary from channel names to degrees.
\<close>

record DTFConfig =
  dpi :: int
  lpi :: int
  output_format :: string
  angles :: "string \<rightharpoonup> real"
  "method" :: string
  matrix_size :: int
  white_method :: string
  white_threshold :: real
  black_generation :: string
  total_ink_limit :: real
  dot_gain :: real
  save_separate_channels :: bool
  compression :: string

definition default_angles :: "string \<rightharpoonup> real" where
  "default_angles =
     [''cyan'' \<mapsto> 15, ''magenta'' \<mapsto> 75, ''yellow'' \<mapsto> 0, ''black'' \<mapsto> 45, ''white'' \<mapsto> 30]"

definition default_config :: DTFConfig where
  "default_config =
     \<lparr>dpi = 600, lpi = 55, output_format = ''tiff'',
      angles = default_angles, method = ''ordered'', matrix_size = 8,
      white_method = ''edge_enhanced'',
      white_threshold = 0.75, black_generation = ''GCR'', total_ink_limit = 280,
      dot_gain = 0.12, save_separate_channels = True, compression = ''LZW''\<rparr>"

section \<open>DTFColorSeparator\<close>

subsection \<open>rgb_to_cmyk\<close>

text \<open>
  The array operations of \<^verbatim>\<open>rgb_to_cmyk\<close> act on every pixel independently, so the model
  is a function on one pixel, mapped over the raster. An ink quadruple is \<open>(c, m, y, k)\<close>.
  \<open>cmy_of_pixel\<close> is the normalisation and \<^verbatim>\<open>c = 1.0 - rgb_norm[:, :, 0]\<close> etc.;
  \<open>black_gen\<close> is the \<^verbatim>\<open>if black_generation == "GCR"\<close> block, its result the values just
  before the ink limit is applied; \<open>ink_limit\<close> is the masked scaling; \<open>cmyk_bytes\<close> is
  \<^verbatim>\<open>(np.clip(cmyk, 0, 1) * 255).astype(np.uint8)\<close> and \<open>black_byte\<close> is
  \<^verbatim>\<open>(k * 255).astype(np.uint8)\<close>.
\<close>

type_synonym ink = "real \<times> real \<times> real \<times> real"

definition cmy_of_pixel :: "nat list \<Rightarrow> real \<times> real \<times> real" where
  "cmy_of_pixel px = (1 - real (px ! 0) / 255, 1 - real (px ! 1) / 255, 1 - real (px ! 2) / 255)"

definition black_gen :: "string \<Rightarrow> real \<times> real \<times> real \<Rightarrow> ink" where
  "black_gen bg cmy =
     (case cmy of (c, m, y) \<Rightarrow>
        if bg = ''GCR''
        then (let k = min (min c m) y * 0.8;
                  k = clip 0 1 k
              in ((c - k) / (1 - k + 1 / 10 ^ 10),
                  (m - k) / (1 - k + 1 / 10 ^ 10),
                  (y - k) / (1 - k + 1 / 10 ^ 10), k))
        else (let k = min (min c m) y
              in (c - k, m - k, y - k, k)))"

definition total_ink :: "ink \<Rightarrow> real" where
  "total_ink q = (case q of (c, m, y, k) \<Rightarrow> c + m + y + k)"

definition ink_limit :: "real \<Rightarrow> ink \<Rightarrow> ink" where
  "ink_limit limit q =
     (case q of (c, m, y, k) \<Rightarrow>
        if limit / 100 < total_ink q
        then (let scale = (limit / 100) / total_ink q
              in (c * scale, m * scale, y * scale, k * scale))
        else (c, m, y, k))"

definition cmyk_bytes :: "ink \<Rightarrow> nat list" where
  "cmyk_bytes q =
     (case q of (c, m, y, k) \<Rightarrow> map (\<lambda>v. astype_uint8 (clip 0 1 v * 255)) [c, m, y, k])"

definition black_byte :: "ink \<Rightarrow> nat" where
  "black_byte q = (case q of (c, m, y, k) \<Rightarrow> astype_uint8 (k * 255))"

definition separate_pixel :: "DTFConfig \<Rightarrow> nat list \<Rightarrow> ink" where
  "separate_pixel config px =
     ink_limit (total_ink_limit config) (black_gen (black_generation config) (cmy_of_pixel px))"

definition rgb_to_cmyk :: "DTFConfig \<Rightarrow> raster \<Rightarrow> raster \<times> plane" where
  "rgb_to_cmyk config rgb =
     (map (map (\<lambda>px. cmyk_bytes (separate_pixel config px))) rgb,
      map (map (\<lambda>px. black_byte (separate_pixel config px))) rgb)"

subsection \<open>generate_white_layer\<close>




subsection \<open>apply_dot_gain_compensation\<close>

text \<open>
  \<^verbatim>\<open>x = np.linspace(0, 1, 256)\<close> has \<open>x[i] = i / 255\<close>. The exponent \<^verbatim>\<open>1 / (1 + dot_gain)\<close>
  is a division of Python floats, which raises \<^verbatim>\<open>ZeroDivisionError\<close> when the divisor is
  zero. The power is \<open>powr\<close>, which agrees with NumPy's on a non-negative base and a
  positive exponent. The \<^verbatim>\<open>dot_gain\<close> argument is optional and defaults to the configured
  dot gain.
\<close>

definition lut_entry :: "real \<Rightarrow> nat \<Rightarrow> nat" where
  "lut_entry g i = astype_uint8 ((1 - (1 - real i / 255) powr (1 / (1 + g))) * 255)"

definition dot_gain_lut :: "real \<Rightarrow> nat list" where
  "dot_gain_lut g = map (lut_entry g) [0..<256]"

definition apply_dot_gain_compensation ::
  "DTFConfig \<Rightarrow> plane \<Rightarrow> real option \<Rightarrow> 'e exn + plane"
where
  "apply_dot_gain_compensation config channel dot_gain_arg =
     (let g = (case dot_gain_arg of None \<Rightarrow> dot_gain config | Some d \<Rightarrow> d)
      in if 1 + g = 0 then Inl ZeroDivisionError
         else Inr (map (map (\<lambda>v. dot_gain_lut g ! v)) channel))"

section \<open>DTFProcessor\<close>











text \<open>
  The processor object: its configuration, the processing flags and the results cache
  (a dictionary from channel names to planes, kept as an association list in insertion
  order; it is empty on a new processor).
\<close>

record DTFProcessor =
  config :: DTFConfig
  is_processing :: bool
  current_progress :: nat
  total_steps :: nat
  results :: "(string \<times> plane) list"



section \<open>Properties of bayer_matrix\<close>

lemma is_plane_map: "is_plane h w (map (map f) p) = is_plane h w p"
  by (simp add: is_plane_def list_all_iff)

lemma is_plane_quadrant: "is_plane h w (quadrant m n i j) = is_plane h w m"
  unfolding quadrant_def by (rule is_plane_map)

lemma is_plane_hstack:
  "is_plane h w a \<Longrightarrow> is_plane h w b \<Longrightarrow> is_plane h (w + w) (map2 (@) a b)"
  by (auto simp: is_plane_def list_all_iff set_zip)

lemma is_plane_vstack:
  "is_plane h w a \<Longrightarrow> is_plane h w b \<Longrightarrow> is_plane (h + h) w (a @ b)"
  by (auto simp: is_plane_def)

lemma is_plane_new_matrix:
  assumes "is_plane n n m"
  shows "is_plane (n * 2) (n * 2) (new_matrix m k)"
proof -
  have "is_plane n (n + n) (map2 (@) (quadrant m k i j) (quadrant m k i' j'))" for i j i' j'
    using assms by (intro is_plane_hstack) (simp_all add: is_plane_quadrant)
  then have "is_plane (n + n) (n + n) (new_matrix m k)"
    unfolding new_matrix_def by (intro is_plane_vstack)
  then show ?thesis by (simp add: mult_2_right)
qed

lemma bayer_loop_exit:
  "n \<noteq> 0 \<Longrightarrow> is_plane n n m \<Longrightarrow>
   \<exists>k. is_plane (n * 2 ^ k) (n * 2 ^ k) (bayer_loop sz n m)
     \<and> sz \<le> int (n * 2 ^ k) \<and> (k = 0 \<or> int (n * 2 ^ k) < 2 * sz)
     \<and> bayer_loop sz n m = bayer_loop (int (n * 2 ^ k)) n m"
proof (induction sz n m rule: bayer_loop.induct)
  case (1 sz n m)
  show ?case
  proof (cases "int n < sz")
    case True
    with 1 obtain k where k:
      "is_plane (n * 2 * 2 ^ k) (n * 2 * 2 ^ k) (bayer_loop sz (n * 2) (new_matrix m (n * 2)))"
      "sz \<le> int (n * 2 * 2 ^ k)" "k = 0 \<or> int (n * 2 * 2 ^ k) < 2 * sz"
      "bayer_loop sz (n * 2) (new_matrix m (n * 2))
        = bayer_loop (int (n * 2 * 2 ^ k)) (n * 2) (new_matrix m (n * 2))"
      using is_plane_new_matrix by fastforce
    have "(0::nat) < 2 ^ k" by simp
    then have "Suc 0 < 2 * 2 ^ k" by linarith
    then have "n < n * (2 * 2 ^ k)"
      using \<open>n \<noteq> 0\<close> by simp
    then have lt: "int n < int (n * 2 * 2 ^ k)"
      by (simp only: mult.assoc of_nat_less_iff)
    have step: "bayer_loop sz n m = bayer_loop sz (n * 2) (new_matrix m (n * 2))"
      using True \<open>n \<noteq> 0\<close> by (subst bayer_loop.simps) simp
    have step': "bayer_loop (int (n * 2 * 2 ^ k)) n m
        = bayer_loop (int (n * 2 * 2 ^ k)) (n * 2) (new_matrix m (n * 2))"
      using lt \<open>n \<noteq> 0\<close> by (subst bayer_loop.simps) simp
    have "int (n * 2 ^ Suc k) < 2 * sz"
      using k(3) True by (cases "k = 0") auto
    then show ?thesis
      using k step step' by (intro exI [of _ "Suc k"]) (simp add: mult.assoc)
  next
    case False
    then have "bayer_loop sz n m = m" "bayer_loop (int n) n m = m"
      by (subst bayer_loop.simps, simp)+
    with 1(3) False show ?thesis
      by (intro exI [of _ 0]) simp
  qed
qed

lemma is_plane_base: "is_plane 2 2 base_matrix"
  by (simp add: is_plane_def base_matrix_def)

text \<open>
  The body alone, as Python would evaluate it, rejects no size: it returns an \<open>N x N\<close>
  matrix, where \<open>N\<close> is the least power of two that is at least 2 and at least the size,
  its entries those the loop builds for \<open>N\<close>, divided by the square of the size that was
  asked for.
\<close>

lemma bayer_matrix_py_rounds_up:
  "\<exists>k. is_plane (2 ^ Suc k) (2 ^ Suc k) (bayer_matrix_py sz)
     \<and> sz \<le> 2 ^ Suc k \<and> (k = 0 \<or> 2 ^ k < sz)
     \<and> bayer_matrix_py sz
         = map (map (\<lambda>v. v / real_of_int (sz * sz))) (bayer_loop (2 ^ Suc k) 2 base_matrix)"
proof -
  have "\<exists>k. is_plane (2 * 2 ^ k) (2 * 2 ^ k) (bayer_loop sz 2 base_matrix)
     \<and> sz \<le> 2 * 2 ^ k \<and> (k = 0 \<or> 2 ^ k < sz)
     \<and> bayer_loop sz 2 base_matrix = bayer_loop (2 * 2 ^ k) 2 base_matrix"
    using bayer_loop_exit [of 2 base_matrix sz] is_plane_base by simp
  then obtain k where k:
    "is_plane (2 * 2 ^ k) (2 * 2 ^ k) (bayer_loop sz 2 base_matrix)"
    "sz \<le> 2 * 2 ^ k" "k = 0 \<or> 2 ^ k < sz"
    "bayer_loop sz 2 base_matrix = bayer_loop (2 * 2 ^ k) 2 base_matrix"
    by blast
  have eq: "bayer_matrix_py sz = map (map (\<lambda>v. v / real_of_int (sz * sz))) (bayer_loop sz 2 base_matrix)"
  proof (cases "sz = 2")
    case True
    have "bayer_loop 2 2 base_matrix = base_matrix"
      by (subst bayer_loop.simps) simp
    with True show ?thesis by (simp add: bayer_matrix_py_def)
  next
    case False
    then show ?thesis by (simp add: bayer_matrix_py_def)
  qed
  show ?thesis
    using k unfolding eq by (intro exI [of _ k]) (simp add: is_plane_map)
qed


text \<open>
  The decorated function raises for every argument: the two return types are a
  \<^verbatim>\<open>float64\<close> array and a \<^verbatim>\<open>float32\<close> array.
\<close>

lemma bayer_matrix_raises: "bayer_matrix sz = Inl TypingError"
  by (simp add: bayer_matrix_def unify_returns_def bayer_matrix_returns_def
      array_divide_type_def)


section \<open>Properties of ordered_dither\<close>

lemma ordered_dither_raises: "ordered_dither channel msize angle = Inl TypingError"
  by (simp add: ordered_dither_def bayer_matrix_raises then_do_def)

lemma threshold_values: "set (concat (threshold a b)) \<subseteq> {0, 1}"
  unfolding threshold_def by (auto simp: set_zip split: if_splits)

lemma dither_result_values: "set (concat (dither_result channel tm)) \<subseteq> {0, 1}"
  unfolding dither_result_def Let_def by (rule threshold_values)

lemma astype_uint8_0: "astype_uint8 (0 * 255) = 0"
  by (simp add: astype_uint8_def)

lemma astype_uint8_255: "astype_uint8 (1 * 255) = 255"
  by (simp add: astype_uint8_def)

lemma scale_uint8_binary:
  assumes "set (concat r) \<subseteq> {0, 1}"
  shows "set (concat (scale_uint8 r)) \<subseteq> {0, 255}"
  using assms astype_uint8_0 astype_uint8_255 unfolding scale_uint8_def by fastforce

text \<open>
  Once a threshold matrix is there, the rest of the body returns only 0 and 255 when the
  angle is 0, for every plane and every threshold matrix.
\<close>

lemma dither_body_binary_unrotated:
  "set (concat (dither_body channel tm 0)) \<subseteq> {0, 255}"
  unfolding dither_body_def Let_def
  using scale_uint8_binary [OF dither_result_values] by simp

lemma half_sqrt2_bounds: "0 < sqrt 2 / 2" "sqrt 2 / 2 < 1"
proof -
  show "0 < sqrt 2 / 2" by simp
  have "sqrt 2 < sqrt 4" by (simp only: real_sqrt_less_iff)
  then show "sqrt 2 / 2 < 1" by simp
qed

lemma half_sqrt2_square: "(sqrt 2 / 2) * (sqrt 2 / 2) = 1 / 2"
  by simp

lemma dither_corner:
  "dither_result [[0, 0, 255], [0, 0, 0], [0, 0, 0]] (bayer_matrix_py 8)
     = [[0, 0, 1], [0, 0, 0], [0, 0, 0]]"
  by code_simp

text \<open>
  Rotating by 45 degrees, the output sample at row 0, column 1 of a 3 x 3 plane reads the
  input at \<open>(1 - r, 1 + r)\<close> with \<open>r = sqrt 2 / 2\<close>: the corner sample \<open>(0, 2)\<close> has
  weight \<open>r * r = 1 / 2\<close> there.
\<close>

lemma rotate_corner: "rotate_sample [[0, 0, 1], [0, 0, 0], [0, 0, 0]] 45 0 1 = 1 / 2"
proof -
  define r where "r = sqrt 2 / 2"
  have r: "0 < r" "r < 1" "r * r = 1 / 2"
    using half_sqrt2_bounds half_sqrt2_square by (simp_all add: r_def)
  have cs: "cos (45 * pi / 180) = r" "sin (45 * pi / 180) = r"
    by (simp_all add: r_def cos_45 sin_45)
  have fl: "\<lfloor>1 - r\<rfloor> = 0" "\<lfloor>r + 1\<rfloor> = 1"
    using r by (simp_all add: floor_eq_iff)
  have fr: "frac (1 - r) = 1 - r" "frac (r + 1) = r"
    using fl by (simp_all add: frac_def)
  have hw: "height [[0, 0, 1], [0, 0, 0], [0, 0, 0::real]] = 3"
    "width [[0, 0, 1], [0, 0, 0], [0, 0, 0::real]] = 3"
    by (simp_all add: height_def width_def)
  have "rotate_sample [[0, 0, 1], [0, 0, 0], [0, 0, 0]] 45 0 1
      = bilinear [[0, 0, 1], [0, 0, 0], [0, 0, 0]] 3 3 (1 - r) (r + 1)"
    unfolding rotate_sample_def Let_def cs hw by simp
  also have "\<dots> = r * r"
    using r by (simp add: bilinear_def fl fr pix_def)
  finally show ?thesis using r by simp
qed

lemma dither_body_corner:
  "dither_body [[0, 0, 255], [0, 0, 0], [0, 0, 0]] (bayer_matrix_py 8) 45 ! 0 ! 1 = 127"
proof -
  have hw: "height [[0, 0, 1], [0, 0, 0], [0, 0, 0::real]] = 3"
    "width [[0, 0, 1], [0, 0, 0], [0, 0, 0::real]] = 3"
    by (simp_all add: height_def width_def)
  have u: "[0..<3] = [0, 1, 2]" by (simp add: upt_rec)
  have a: "astype_uint8 (255 / 2) = 127" by (simp add: astype_uint8_def)
  have rc: "rotate_sample [[0, 0, 1], [0, 0, 0], [0, 0, 0]] 45 0 (Suc 0) = 1 / 2"
    using rotate_corner by (simp only: One_nat_def)
  show ?thesis
    unfolding dither_body_def Let_def dither_corner ndimage_rotate_def scale_uint8_def hw u
    by (simp add: rc a)
qed

text \<open>
  Claim C1 (the plane returned by \<open>ordered_dither\<close> contains only 0 and 255, also when
  the angle is not 0) against the code, at the 3 x 3 plane with one full sample in a
  corner and the default matrix size 8 and angle 45. No plane is returned: the call of
  \<open>bayer_matrix\<close> raises \<open>TypingError\<close>. And were the threshold matrix of the body
  supplied, the statements after the call would return 127 at row 0, column 1, since
  the thresholded plane is rotated by interpolation and only rescaled.
\<close>

theorem ordered_dither_corner_plane:
  "(ordered_dither [[0, 0, 255], [0, 0, 0], [0, 0, 0]] 8 45 :: 'e exn + plane) = Inl TypingError
   \<and> dither_body [[0, 0, 255], [0, 0, 0], [0, 0, 0]] (bayer_matrix_py 8) 45 ! 0 ! 1 = 127"
  by (simp only: ordered_dither_raises dither_body_corner simp_thms)

section \<open>Properties of hybrid_halftone\<close>

text \<open>
  The function raises as soon as one sample is a midtone, since it then calls
  \<open>ordered_dither\<close>; with no midtone at all it returns.
\<close>

lemma hybrid_halftone_midtone:
  assumes "any_mask (mask_not (mask_or (map (map (\<lambda>v. v < ht)) (normalize channel))
      (map (map (\<lambda>v. st < v)) (normalize channel))))"
  shows "hybrid_halftone channel ht st = Inl TypingError"
  using assms by (simp add: hybrid_halftone_def Let_def ordered_dither_raises then_do_def)

text \<open>
  Claim C4 (the result is error diffusion at the highlight and shadow pixels and
  ordered dithering of the full plane, matrix size 8 and angle 0, at the midtone pixels)
  against the code, at the 1 x 2 plane of two midtone samples 128: no plane is
  returned, the call raises \<open>TypingError\<close>.
\<close>

theorem hybrid_halftone_midtone_plane:
  "(hybrid_halftone [[128, 128]] 0.2 0.8 :: 'e exn + plane) = Inl TypingError"
  by (rule hybrid_halftone_midtone) (simp add: any_mask_def mask_not_def mask_or_def normalize_def)

section \<open>Properties of rgb_to_cmyk\<close>

text \<open>
  Claim C6, as amended: when black generation is not GCR (the UCR branch), with
  \<open>k = min (1 - r) (1 - g) (1 - b)\<close>, the values just before ink-limit scaling are
  \<open>c = (1 - r) - k\<close>, \<open>m = (1 - g) - k\<close>, \<open>y = (1 - b) - k\<close>: the black component
  has been removed from each of them.
\<close>

theorem ucr_before_ink_limit:
  assumes "bg \<noteq> ''GCR''"
    and "black_gen bg (cmy_of_pixel px) = (c, m, y, k)"
  shows "k = min (min (1 - real (px ! 0) / 255) (1 - real (px ! 1) / 255)) (1 - real (px ! 2) / 255)
     \<and> c = 1 - real (px ! 0) / 255 - k
     \<and> m = 1 - real (px ! 1) / 255 - k
     \<and> y = 1 - real (px ! 2) / 255 - k"
  using assms by (auto simp: black_gen_def cmy_of_pixel_def Let_def)

theorem ucr_before_ink_limit_witness:
  "''UCR'' \<noteq> ''GCR''
   \<and> black_gen ''UCR'' (cmy_of_pixel [10, 20, 30]) = (20 / 255, 10 / 255, 0, 225 / 255)
   \<and> (20 / 255 :: real) = 1 - real ([10, 20, 30] ! 0) / 255 - 225 / 255"
proof -
  have h1: "''UCR'' \<noteq> ''GCR''" by simp
  have h2: "black_gen ''UCR'' (cmy_of_pixel [10, 20, 30]) = (20 / 255, 10 / 255, 0, 225 / 255)"
    by (simp add: black_gen_def cmy_of_pixel_def Let_def)
  from ucr_before_ink_limit [OF h1 h2] h1 h2 show ?thesis by simp
qed

text \<open>
  Claim C6 as stated fails: for a black pixel, \<open>r = 0\<close> and \<open>1 - r = 1\<close>, but the cyan
  value before ink-limit scaling is 0.
\<close>

theorem ucr_black_pixel:
  "black_gen ''UCR'' (cmy_of_pixel [0, 0, 0]) = (0, 0, 0, 1)
   \<and> fst (black_gen ''UCR'' (cmy_of_pixel [0, 0, 0])) \<noteq> 1 - real ([0, 0, 0] ! 0) / 255"
  by (simp add: black_gen_def cmy_of_pixel_def Let_def)

lemma astype_uint8_le:
  assumes "0 \<le> v"
  shows "real (astype_uint8 (clip 0 1 v * 255)) \<le> v * 255"
proof -
  let ?x = "clip 0 1 v * 255"
  have x: "0 \<le> ?x" "?x \<le> 255" "?x \<le> v * 255"
    using assms by (auto simp: clip_def min_def max_def)
  then have "0 \<le> \<lfloor>?x\<rfloor>" "\<lfloor>?x\<rfloor> < 256"
    by (simp_all add: floor_less_iff)
  then have "astype_uint8 ?x = nat \<lfloor>?x\<rfloor>"
    using x by (simp add: astype_uint8_def)
  moreover have "real (nat \<lfloor>?x\<rfloor>) \<le> ?x"
    using x by (simp add: of_nat_nat)
  ultimately show ?thesis using x by linarith
qed

lemma black_gen_nonneg:
  assumes "0 \<le> c" "c \<le> 1" "0 \<le> m" "m \<le> 1" "0 \<le> y" "y \<le> 1"
    and "black_gen bg (c, m, y) = (c', m', y', k')"
  shows "0 \<le> c' \<and> 0 \<le> m' \<and> 0 \<le> y' \<and> 0 \<le> k' \<and> k' \<le> 1"
proof (cases "bg = ''GCR''")
  case True
  define k where "k = clip 0 1 (min (min c m) y * 0.8)"
  have k: "0 \<le> k" "k \<le> 0.8" "k \<le> c" "k \<le> m" "k \<le> y"
    using assms(1-6) by (auto simp: k_def clip_def min_def max_def)
  have d: "0 < 1 - k + 1 / 10 ^ 10" using k by simp
  have eq: "black_gen bg (c, m, y) = ((c - k) / (1 - k + 1 / 10 ^ 10),
      (m - k) / (1 - k + 1 / 10 ^ 10), (y - k) / (1 - k + 1 / 10 ^ 10), k)"
    using True unfolding black_gen_def Let_def k_def by simp
  have t: "(c', m', y', k') = ((c - k) / (1 - k + 1 / 10 ^ 10),
      (m - k) / (1 - k + 1 / 10 ^ 10), (y - k) / (1 - k + 1 / 10 ^ 10), k)"
    by (rule trans [OF assms(7) [symmetric] eq])
  have e: "c' = (c - k) / (1 - k + 1 / 10 ^ 10)"
    "m' = (m - k) / (1 - k + 1 / 10 ^ 10)" "y' = (y - k) / (1 - k + 1 / 10 ^ 10)" "k' = k"
    using t by (simp_all only: prod.inject)
  show ?thesis unfolding e using k d by (auto intro!: divide_nonneg_pos)
next
  case False
  then show ?thesis using assms by (auto simp: black_gen_def Let_def min_def)
qed


lemma cmy_of_pixel_bounds:
  assumes "list_all (\<lambda>v. v \<le> 255) px" "3 \<le> length px"
    and "cmy_of_pixel px = (c, m, y)"
  shows "0 \<le> c \<and> c \<le> 1 \<and> 0 \<le> m \<and> m \<le> 1 \<and> 0 \<le> y \<and> y \<le> 1"
proof -
  have "\<forall>n<length px. px ! n \<le> 255"
    using assms(1) by (simp add: list_all_length)
  moreover have "0 < length px" "1 < length px" "2 < length px"
    using assms(2) by linarith+
  ultimately have "px ! 0 \<le> 255" "px ! 1 \<le> 255" "px ! 2 \<le> 255"
    by blast+
  then show ?thesis using assms(3) by (auto simp: cmy_of_pixel_def)
qed

lemma ink_limit_scaled:
  assumes "0 \<le> L" "L / 100 < total_ink (c, m, y, k)"
  shows "ink_limit L (c, m, y, k)
       = (c * (L / 100 / (c + m + y + k)), m * (L / 100 / (c + m + y + k)),
          y * (L / 100 / (c + m + y + k)), k * (L / 100 / (c + m + y + k)))"
    and "total_ink (ink_limit L (c, m, y, k)) = L / 100"
    and "0 \<le> L / 100 / (c + m + y + k)" and "L / 100 / (c + m + y + k) < 1"
proof -
  define T where "T = c + m + y + k"
  define l where "l = L / 100"
  define s where "s = l / T"
  have t: "0 \<le> l" "l < T" "0 < T"
    using assms by (simp_all add: total_ink_def T_def l_def)
  have e: "ink_limit L (c, m, y, k) = (c * s, m * s, y * s, k * s)"
    using assms(2) by (simp add: ink_limit_def Let_def total_ink_def s_def T_def l_def)
  have "c * s + m * s + y * s + k * s = T * s"
    unfolding T_def by (simp only: distrib_right)
  also have "\<dots> = l" using t by (simp add: s_def)
  finally have "total_ink (c * s, m * s, y * s, k * s) = l"
    by (simp add: total_ink_def)
  moreover have "0 \<le> s" "s < 1" using t by (simp_all add: s_def)
  ultimately show "ink_limit L (c, m, y, k)
       = (c * (L / 100 / (c + m + y + k)), m * (L / 100 / (c + m + y + k)),
          y * (L / 100 / (c + m + y + k)), k * (L / 100 / (c + m + y + k)))"
    and "total_ink (ink_limit L (c, m, y, k)) = L / 100"
    and "0 \<le> L / 100 / (c + m + y + k)" and "L / 100 / (c + m + y + k) < 1"
    using e unfolding s_def T_def l_def by simp_all
qed

lemma ink_limit_unchanged:
  assumes "total_ink q \<le> L / 100"
  shows "ink_limit L q = q"
  using assms by (cases q) (simp add: ink_limit_def)

lemma ink_limit_bounds:
  assumes "0 \<le> L" "0 \<le> c" "0 \<le> m" "0 \<le> y" "0 \<le> k" "k \<le> 1"
    and "ink_limit L (c, m, y, k) = (c', m', y', k')"
  shows "0 \<le> c' \<and> 0 \<le> m' \<and> 0 \<le> y' \<and> 0 \<le> k' \<and> k' \<le> 1 \<and> c' + m' + y' + k' \<le> L / 100"
proof (cases "L / 100 < total_ink (c, m, y, k)")
  case True
  define s where "s = L / 100 / (c + m + y + k)"
  note sc = ink_limit_scaled [OF assms(1) True, folded s_def]
  have t: "(c', m', y', k') = (c * s, m * s, y * s, k * s)"
    by (rule trans [OF assms(7) [symmetric] sc(1)])
  have e: "c' = c * s" "m' = m * s" "y' = y * s" "k' = k * s"
    using t by (simp_all only: prod.inject)
  have "k * s \<le> 1 * 1"
    using assms(5,6) sc(3,4) by (intro mult_mono) simp_all
  moreover have "c * s + m * s + y * s + k * s = L / 100"
    using sc(2) unfolding sc(1) by (simp add: total_ink_def)
  moreover have "0 \<le> c * s" "0 \<le> m * s" "0 \<le> y * s" "0 \<le> k * s"
    using assms(2-5) sc(3) by simp_all
  ultimately show ?thesis
    unfolding e by simp
next
  case False
  then have "ink_limit L (c, m, y, k) = (c, m, y, k)"
    by (intro ink_limit_unchanged) simp
  with assms False show ?thesis by (simp add: total_ink_def)
qed

lemma cmyk_bytes_sum:
  assumes "0 \<le> c" "0 \<le> m" "0 \<le> y" "0 \<le> k"
  shows "real (sum_list (cmyk_bytes (c, m, y, k))) \<le> (c + m + y + k) * 255"
  using astype_uint8_le [OF assms(1)] astype_uint8_le [OF assms(2)]
    astype_uint8_le [OF assms(3)] astype_uint8_le [OF assms(4)]
  by (simp add: cmyk_bytes_def distrib_right)

lemma black_byte_cmyk:
  assumes "0 \<le> k" "k \<le> 1"
  shows "black_byte (c, m, y, k) = cmyk_bytes (c, m, y, k) ! 3"
  using assms by (simp add: black_byte_def cmyk_bytes_def clip_def)

lemma rgb_to_cmyk_nth:
  assumes "i < length rgb" "j < length (rgb ! i)"
  shows "fst (rgb_to_cmyk cfg rgb) ! i ! j = cmyk_bytes (separate_pixel cfg (rgb ! i ! j))"
    and "snd (rgb_to_cmyk cfg rgb) ! i ! j = black_byte (separate_pixel cfg (rgb ! i ! j))"
  using assms by (simp_all add: rgb_to_cmyk_def)

lemma is_raster_pixel:
  assumes "is_raster h w rgb" "i < h" "j < w"
  shows "i < length rgb" "j < length (rgb ! i)"
    "list_all (\<lambda>v. v \<le> 255) (rgb ! i ! j)" "3 \<le> length (rgb ! i ! j)"
proof -
  show i: "i < length rgb" using assms by (simp add: is_raster_def is_plane_def)
  then have r: "rgb ! i \<in> set rgb" by simp
  then show j: "j < length (rgb ! i)"
    using assms by (simp add: is_raster_def is_plane_def list_all_iff)
  then have "rgb ! i ! j \<in> set (rgb ! i)" by simp
  with r assms(1) have p: "length (rgb ! i ! j) = 3 \<or> length (rgb ! i ! j) = 4"
    "list_all (\<lambda>v. v \<le> 255) (rgb ! i ! j)"
    unfolding is_raster_def list_all_iff by blast+
  show "list_all (\<lambda>v. v \<le> 255) (rgb ! i ! j)" by (rule p(2))
  show "3 \<le> length (rgb ! i ! j)" using p(1) by auto
qed

text \<open>
  Claim C3, as amended: for every well-formed raster and every total ink limit that is
  not negative, at every pixel the combined coverage of the four returned bytes, in
  percent, is at most the limit (in exact arithmetic no tolerance is needed, since the
  conversion to bytes truncates); the separately returned black plane carries the same
  byte as the fourth channel; a pixel whose sum before limiting exceeds the limit has
  all four values multiplied by one factor and its sum is then the limit exactly, and a
  pixel within the limit is unchanged.
\<close>

theorem ink_limit_respected:
  assumes "0 \<le> total_ink_limit cfg" and "is_raster h w rgb" and "i < h" and "j < w"
  shows "real (sum_list (fst (rgb_to_cmyk cfg rgb) ! i ! j)) * 100 / 255 \<le> total_ink_limit cfg
    \<and> snd (rgb_to_cmyk cfg rgb) ! i ! j = fst (rgb_to_cmyk cfg rgb) ! i ! j ! 3
    \<and> fst (rgb_to_cmyk cfg rgb) ! i ! j = cmyk_bytes (separate_pixel cfg (rgb ! i ! j))
    \<and> (case black_gen (black_generation cfg) (cmy_of_pixel (rgb ! i ! j)) of (c, m, y, k) \<Rightarrow>
         if total_ink_limit cfg / 100 < c + m + y + k
         then total_ink (separate_pixel cfg (rgb ! i ! j)) = total_ink_limit cfg / 100
            \<and> (\<exists>scale. separate_pixel cfg (rgb ! i ! j) = (c * scale, m * scale, y * scale, k * scale))
         else separate_pixel cfg (rgb ! i ! j) = (c, m, y, k))"
proof -
  let ?px = "rgb ! i ! j"
  let ?L = "total_ink_limit cfg"
  note px = is_raster_pixel [OF assms(2-4)]
  obtain c0 m0 y0 where cmy: "cmy_of_pixel ?px = (c0, m0, y0)"
    by (cases "cmy_of_pixel ?px") auto
  obtain c m y k where q: "black_gen (black_generation cfg) (c0, m0, y0) = (c, m, y, k)"
    by (cases "black_gen (black_generation cfg) (c0, m0, y0)") auto
  obtain c' m' y' k' where q': "ink_limit ?L (c, m, y, k) = (c', m', y', k')"
    by (cases "ink_limit ?L (c, m, y, k)") auto
  have sp: "separate_pixel cfg ?px = (c', m', y', k')"
    by (simp add: separate_pixel_def cmy q q')
  have b0: "0 \<le> c0 \<and> c0 \<le> 1 \<and> 0 \<le> m0 \<and> m0 \<le> 1 \<and> 0 \<le> y0 \<and> y0 \<le> 1"
    by (rule cmy_of_pixel_bounds [OF px(3,4) cmy])
  have b1: "0 \<le> c \<and> 0 \<le> m \<and> 0 \<le> y \<and> 0 \<le> k \<and> k \<le> 1"
    using b0 by (intro black_gen_nonneg [OF _ _ _ _ _ _ q]) simp_all
  have b2: "0 \<le> c' \<and> 0 \<le> m' \<and> 0 \<le> y' \<and> 0 \<le> k' \<and> k' \<le> 1 \<and> c' + m' + y' + k' \<le> ?L / 100"
    using b1 by (intro ink_limit_bounds [OF assms(1) _ _ _ _ _ q']) simp_all
  have "real (sum_list (cmyk_bytes (c', m', y', k'))) \<le> (c' + m' + y' + k') * 255"
    using b2 by (intro cmyk_bytes_sum) simp_all
  also have "\<dots> \<le> ?L / 100 * 255"
    using b2 by simp
  finally have s: "real (sum_list (cmyk_bytes (c', m', y', k'))) * 100 / 255 \<le> ?L"
    by simp
  have bb: "black_byte (c', m', y', k') = cmyk_bytes (c', m', y', k') ! 3"
    using b2 by (intro black_byte_cmyk) simp_all
  have lim: "if ?L / 100 < c + m + y + k
      then total_ink (c', m', y', k') = ?L / 100
         \<and> (\<exists>scale. (c', m', y', k') = (c * scale, m * scale, y * scale, k * scale))
      else (c', m', y', k') = (c, m, y, k)"
  proof (cases "?L / 100 < c + m + y + k")
    case True
    then have t: "?L / 100 < total_ink (c, m, y, k)" by (simp add: total_ink_def)
    note sc = ink_limit_scaled [OF assms(1) t]
    have "\<exists>scale. (c', m', y', k') = (c * scale, m * scale, y * scale, k * scale)"
      using sc(1) unfolding q' by (rule exI)
    moreover have "total_ink (c', m', y', k') = ?L / 100"
      using sc(2) unfolding q' .
    ultimately show ?thesis using True by (simp only: if_True simp_thms)
  next
    case False
    then have "ink_limit ?L (c, m, y, k) = (c, m, y, k)"
      by (intro ink_limit_unchanged) (simp add: total_ink_def)
    then show ?thesis using False unfolding q' by simp
  qed
  show ?thesis
    unfolding rgb_to_cmyk_nth [OF px(1,2)] sp cmy q
    using s bb lim by simp
qed


theorem ink_limit_respected_witness:
  "0 \<le> total_ink_limit default_config \<and> is_raster 1 1 [[[0, 0, 0]]]
   \<and> real (sum_list (fst (rgb_to_cmyk default_config [[[0, 0, 0]]]) ! 0 ! 0)) * 100 / 255
       \<le> total_ink_limit default_config"
proof -
  have h1: "0 \<le> total_ink_limit default_config"
    by (simp add: default_config_def)
  have h2: "is_raster 1 1 [[[0, 0, 0]]]"
    by (simp add: is_raster_def is_plane_def depth_def)
  have h3: "real (sum_list (fst (rgb_to_cmyk default_config [[[0, 0, 0]]]) ! 0 ! 0)) * 100 / 255
       \<le> total_ink_limit default_config"
    by (rule ink_limit_respected [OF h1 h2, THEN conjunct1]) simp_all
  show ?thesis using h1 h2 h3 by (intro conjI)
qed

lemma astype_uint8_nonpos:
  assumes "v \<le> 0"
  shows "astype_uint8 (clip 0 1 v * 255) = 0"
proof -
  have "clip 0 1 v = 0" using assms by (simp add: clip_def)
  then show ?thesis by (simp add: astype_uint8_def)
qed

lemma negative_limit_bytes:
  assumes "L < 0" "0 \<le> c" "0 \<le> m" "0 \<le> y" "0 \<le> k"
  shows "cmyk_bytes (ink_limit L (c, m, y, k)) = [0, 0, 0, 0]"
proof -
  define s where "s = L / 100 / (c + m + y + k)"
  have "L / 100 < total_ink (c, m, y, k)"
    using assms by (simp add: total_ink_def)
  then have e: "ink_limit L (c, m, y, k) = (c * s, m * s, y * s, k * s)"
    by (simp add: ink_limit_def Let_def s_def total_ink_def)
  have "s \<le> 0"
    unfolding s_def using assms by (intro divide_nonpos_nonneg) simp_all
  then have "c * s \<le> 0" "m * s \<le> 0" "y * s \<le> 0" "k * s \<le> 0"
    using assms(2-5) by (simp_all add: mult_nonneg_nonpos)
  then show ?thesis
    unfolding e by (simp add: cmyk_bytes_def astype_uint8_nonpos)
qed

lemma black_pixel_cmy: "cmy_of_pixel [0, 0, 0] = (1, 1, 1)"
  by (simp add: cmy_of_pixel_def)

text \<open>
  Claim C3 as stated fails for a negative limit: with \<^verbatim>\<open>total_ink_limit = -100\<close> a black
  pixel is scaled by a negative factor and clipped to zero coverage, which is 100
  percentage points above the limit.
\<close>

theorem negative_ink_limit_exceeded:
  "fst (rgb_to_cmyk (default_config\<lparr>total_ink_limit := - 100\<rparr>) [[[0, 0, 0]]]) = [[[0, 0, 0, 0]]]
   \<and> real (sum_list (fst (rgb_to_cmyk (default_config\<lparr>total_ink_limit := - 100\<rparr>)
          [[[0, 0, 0]]]) ! 0 ! 0)) * 100 / 255
       = total_ink_limit (default_config\<lparr>total_ink_limit := - 100\<rparr>) + 100"
proof -
  let ?cfg = "default_config\<lparr>total_ink_limit := - 100\<rparr>"
  obtain c m y k where q: "black_gen (black_generation ?cfg) (1, 1, 1) = (c, m, y, k)"
    by (cases "black_gen (black_generation ?cfg) (1, 1, 1)") auto
  have b: "0 \<le> c \<and> 0 \<le> m \<and> 0 \<le> y \<and> 0 \<le> k \<and> k \<le> 1"
    by (rule black_gen_nonneg [OF _ _ _ _ _ _ q]) simp_all
  have "cmyk_bytes (separate_pixel ?cfg [0, 0, 0]) = [0, 0, 0, 0]"
    unfolding separate_pixel_def black_pixel_cmy q
    using b by (intro negative_limit_bytes) simp_all
  then have "fst (rgb_to_cmyk ?cfg [[[0, 0, 0]]]) = [[[0, 0, 0, 0]]]"
    by (simp add: rgb_to_cmyk_def)
  then show ?thesis by simp
qed


section \<open>Properties of apply_dot_gain_compensation\<close>

lemma astype_uint8_in_range:
  assumes "0 \<le> x" "x < 256"
  shows "astype_uint8 x = nat \<lfloor>x\<rfloor>"
proof -
  have "0 \<le> \<lfloor>x\<rfloor>" "\<lfloor>x\<rfloor> < 256"
    using assms by (simp_all add: floor_less_iff)
  then show ?thesis using assms by (simp add: astype_uint8_def)
qed

lemma astype_uint8_mono:
  assumes "0 \<le> x" "x \<le> y" "y < 256"
  shows "astype_uint8 x \<le> astype_uint8 y"
proof -
  have "\<lfloor>x\<rfloor> \<le> \<lfloor>y\<rfloor>" using assms(2) by (rule floor_mono)
  then show ?thesis
    using assms by (simp add: astype_uint8_in_range nat_mono)
qed

lemma astype_uint8_of_nat:
  assumes "i \<le> 255"
  shows "astype_uint8 (real i) = i"
  using assms by (simp add: astype_uint8_in_range)

text \<open>The curve \<open>y = 1 - (1 - x) ^ p\<close> at the sample \<open>x = i / 255\<close>.\<close>

lemma gain_curve_range:
  assumes "0 \<le> g" "i \<le> 255"
  shows "0 \<le> (1 - (1 - real i / 255) powr (1 / (1 + g))) * 255"
    and "(1 - (1 - real i / 255) powr (1 / (1 + g))) * 255 < 256"
proof -
  have b: "0 \<le> 1 - real i / 255" "1 - real i / 255 \<le> 1" using assms(2) by simp_all
  have p: "0 \<le> 1 / (1 + g)" using assms(1) by simp
  have "(1 - real i / 255) powr (1 / (1 + g)) \<le> 1 powr (1 / (1 + g))"
    using p b by (intro powr_mono2)
  then have u: "(1 - real i / 255) powr (1 / (1 + g)) \<le> 1" by simp
  define z where "z = (1 - real i / 255) powr (1 / (1 + g))"
  have z: "0 \<le> z" "z \<le> 1" using u by (simp_all add: z_def)
  have "0 \<le> (1 - z) * 255" "(1 - z) * 255 < 256" using z by simp_all
  then show "0 \<le> (1 - (1 - real i / 255) powr (1 / (1 + g))) * 255"
    and "(1 - (1 - real i / 255) powr (1 / (1 + g))) * 255 < 256"
    unfolding z_def by simp_all
qed

lemma lut_entry_mono:
  assumes "0 \<le> g" "i \<le> j" "j \<le> 255"
  shows "lut_entry g i \<le> lut_entry g j"
proof -
  have p: "0 \<le> 1 / (1 + g)" using assms(1) by simp
  have "1 - real j / 255 \<le> 1 - real i / 255" "0 \<le> 1 - real j / 255"
    using assms(2,3) by simp_all
  then have "(1 - real j / 255) powr (1 / (1 + g)) \<le> (1 - real i / 255) powr (1 / (1 + g))"
    using p by (intro powr_mono2)
  then have "(1 - (1 - real i / 255) powr (1 / (1 + g))) * 255
      \<le> (1 - (1 - real j / 255) powr (1 / (1 + g))) * 255"
    by simp
  moreover have "i \<le> 255" using assms(2,3) by simp
  ultimately show ?thesis
    unfolding lut_entry_def
    using gain_curve_range [OF assms(1)] assms(3) by (intro astype_uint8_mono) simp_all
qed

lemma lut_entry_zero_gain:
  assumes "i \<le> 255"
  shows "lut_entry 0 i = i"
proof -
  have "0 \<le> 1 - real i / 255" using assms by simp
  then have "(1 - real i / 255) powr (1 / (1 + 0)) = 1 - real i / 255"
    by (simp add: powr_one)
  then have "(1 - (1 - real i / 255) powr (1 / (1 + 0))) * 255 = real i"
    by simp
  then show ?thesis
    unfolding lut_entry_def using assms by (simp only: astype_uint8_of_nat)
qed

lemma dot_gain_lut_nth: "i < 256 \<Longrightarrow> dot_gain_lut g ! i = lut_entry g i"
  by (simp add: dot_gain_lut_def)

text \<open>
  Claim C7: for every dot gain that is not negative, the 256-entry dot-gain table is
  monotonically non-decreasing in its index; for dot gain 0 the table maps every index
  \<open>i\<close> to a value within 1 of \<open>i\<close>, so that the compensation changes no sample of an
  8-bit plane by more than 1. (In exact arithmetic the table for dot gain 0 is the
  identity; the statement keeps the claim's tolerance.)
\<close>

theorem dot_gain_lut_monotone_identity:
  "(0 \<le> g \<longrightarrow> i \<le> j \<longrightarrow> j < 256 \<longrightarrow> dot_gain_lut g ! i \<le> dot_gain_lut g ! j)
   \<and> (i < 256 \<longrightarrow> \<bar>int (dot_gain_lut 0 ! i) - int i\<bar> \<le> 1)
   \<and> (dot_gain cfg = 0 \<longrightarrow> r < length channel \<longrightarrow> c < length (channel ! r) \<longrightarrow>
        channel ! r ! c < 256 \<longrightarrow>
        (\<exists>out. apply_dot_gain_compensation cfg channel None = Inr out
           \<and> \<bar>int (out ! r ! c) - int (channel ! r ! c)\<bar> \<le> 1))"
proof (intro conjI impI)
  assume "0 \<le> g" "i \<le> j" "j < 256"
  then show "dot_gain_lut g ! i \<le> dot_gain_lut g ! j"
    by (simp add: dot_gain_lut_nth lut_entry_mono)
next
  assume "i < 256"
  then show "\<bar>int (dot_gain_lut 0 ! i) - int i\<bar> \<le> 1"
    by (simp add: dot_gain_lut_nth lut_entry_zero_gain)
next
  assume a: "dot_gain cfg = 0" "r < length channel" "c < length (channel ! r)"
    "channel ! r ! c < 256"
  have "apply_dot_gain_compensation cfg channel None
      = Inr (map (map (\<lambda>v. dot_gain_lut 0 ! v)) channel)"
    using a(1) by (simp add: apply_dot_gain_compensation_def)
  moreover have "map (map (\<lambda>v. dot_gain_lut 0 ! v)) channel ! r ! c = channel ! r ! c"
    using a(2-4) by (simp add: dot_gain_lut_nth lut_entry_zero_gain)
  ultimately have "apply_dot_gain_compensation cfg channel None
        = Inr (map (map (\<lambda>v. dot_gain_lut 0 ! v)) channel)
      \<and> \<bar>int (map (map (\<lambda>v. dot_gain_lut 0 ! v)) channel ! r ! c) - int (channel ! r ! c)\<bar> \<le> 1"
    by simp
  then show "\<exists>out. apply_dot_gain_compensation cfg channel None = Inr out
      \<and> \<bar>int (out ! r ! c) - int (channel ! r ! c)\<bar> \<le> 1"
    by (rule exI)
qed

theorem dot_gain_lut_witness:
  "dot_gain_lut 0 ! 10 \<le> dot_gain_lut 0 ! 20
   \<and> \<bar>int (dot_gain_lut 0 ! 10) - int 10\<bar> \<le> 1
   \<and> dot_gain (default_config\<lparr>dot_gain := 0\<rparr>) = 0
   \<and> (\<exists>out. apply_dot_gain_compensation (default_config\<lparr>dot_gain := 0\<rparr>) [[7, 200]] None = Inr out
         \<and> \<bar>int (out ! 0 ! 1) - int ([[7, 200]] ! 0 ! 1)\<bar> \<le> 1)"
  using dot_gain_lut_monotone_identity
    [of 0 10 20 "default_config\<lparr>dot_gain := 0\<rparr>" 0 "[[7, 200]]" 1]
  by simp


section \<open>Properties of process\<close>























section \<open>Shapes of the planes\<close>















end
